theory Spec2Isabelle
  imports Main
begin

section \<open>Go values used by the upload handler\<close>

text \<open>
  The repository holds two revisions of one handler file. \<^verbatim>\<open>src/unnamed/part_000\<close> is the
  later one (remux, encoded reference, signed URL in the response);
  \<^verbatim>\<open>src/handler_upload_video.go\<close> is the earlier one (no remux, raw URL). Definitions
  without a suffix embed the later revision; the suffix \<open>_rev1\<close> marks the earlier one.
\<close>

subsection \<open>Machine integers\<close>

text \<open>
  \<^verbatim>\<open>Width\<close> and \<^verbatim>\<open>Height\<close> are Go \<^verbatim>\<open>int\<close>s, 64 bits wide on the 64-bit targets. A value
  is an \<open>int\<close> in the range of \<open>is_int64\<close>; arithmetic that leaves the range wraps around
  (two's complement), and \<^verbatim>\<open>/\<close> truncates towards zero.
\<close>

definition is_int64 :: "int \<Rightarrow> bool" where
  "is_int64 x = (- (2 ^ 63) \<le> x \<and> x < 2 ^ 63)"

definition wrap64 :: "int \<Rightarrow> int" where
  "wrap64 x = (x + 2 ^ 63) mod 2 ^ 64 - 2 ^ 63"

definition go_mul :: "int \<Rightarrow> int \<Rightarrow> int" where
  "go_mul a b = wrap64 (a * b)"

definition go_quo :: "int \<Rightarrow> int \<Rightarrow> int" where
  "go_quo a b = (if (a < 0) = (b < 0) then \<bar>a\<bar> div \<bar>b\<bar> else - (\<bar>a\<bar> div \<bar>b\<bar>))"

subsection \<open>Errors\<close>

text \<open>One constructor for each place where the two files build an \<^verbatim>\<open>error\<close>.\<close>

datatype go_error =
    ErrFfprobe
  | ErrUnmarshal
  | ErrEmptyResult
  | ErrFfmpeg
  | ErrInvalidVideoURL
  | ErrPresignObject
  | ErrGeneratePresigned

section \<open>Data model\<close>

datatype uuid = UUID nat

text \<open>
  Modelled from the spec: the record of the metadata store (package \<^verbatim>\<open>internal/database\<close>
  is not among the sources). The spec gives it an identifier, an owner identity and a
  nullable stored reference; these are the fields the handler reads or writes.
\<close>

record video =
  ID :: uuid
  UserID :: uuid
  VideoURL :: "string option"

text \<open>The fields of \<^verbatim>\<open>apiConfig\<close> that the handler reads.\<close>

record apiConfig =
  jwtSecret :: string
  s3Bucket :: string

text \<open>
  The multipart part returned by \<^verbatim>\<open>r.FormFile\<close>: \<open>content_type\<close> is
  \<^verbatim>\<open>header.Header.Get("Content-Type")\<close>.
\<close>

record form_file =
  content_type :: string
  content :: string

record request =
  PathValue_videoID :: string
  Header :: "(string \<times> string) list"
  body_size :: nat
  form_wellformed :: bool
  form_files :: "string \<rightharpoonup> form_file"

text \<open>How a run of \<^verbatim>\<open>ffmpeg\<close> ends: its exit status, and whether it left an output file.\<close>

datatype ffmpeg_exit = FfmpegExit (exit_ok: bool) (output_written: bool)

text \<open>
  What running \<^verbatim>\<open>ffprobe\<close> and decoding its standard output gives: the process fails, the
  output is not the expected JSON, or the decoded \<^verbatim>\<open>Streams\<close> slice of (width, height).
\<close>

datatype ffprobe_output =
    ProbeExit
  | ProbeGarbage
  | ProbeStreams "(int \<times> int) list"

text \<open>
  The collaborators whose code is outside the two files (the auth package, the Go
  library, the external processes, the object store and its presigner, and the helpers
  \<^verbatim>\<open>getAssetPath\<close> and \<^verbatim>\<open>getVideoURL\<close>) are parameters: one field for each, giving the
  outcome of the call for its arguments. \<open>None\<close> and \<open>False\<close> stand for a non-nil \<^verbatim>\<open>err\<close>.
\<close>

record env =
  uuid_Parse :: "string \<Rightarrow> uuid option"
  GetBearerToken :: "(string \<times> string) list \<Rightarrow> string option"
  ValidateJWT :: "string \<Rightarrow> string \<Rightarrow> uuid option"
  ParseMediaType :: "string \<Rightarrow> string option"
  os_CreateTemp :: "string \<Rightarrow> string \<Rightarrow> string option"
  io_Copy_ok :: bool
  Seek_ok :: bool
  ffmpeg :: "string list \<Rightarrow> ffmpeg_exit"
  ffprobe :: "string list \<Rightarrow> ffprobe_output"
  os_Open :: "string \<Rightarrow> bool"
  getAssetPath :: "string \<Rightarrow> string"
  path_Join :: "string \<Rightarrow> string \<Rightarrow> string"
  PutObject_ok :: "string \<Rightarrow> string \<Rightarrow> bool"
  UpdateVideo_ok :: "video \<Rightarrow> bool"
  PresignGetObject :: "string \<Rightarrow> string \<Rightarrow> nat \<Rightarrow> string option"
  getVideoURL :: "string \<Rightarrow> string"

text \<open>The calls that act on the disk, the external processes and the two stores.\<close>

datatype handle = FormFile_video | OsFile string

datatype call =
    CallCreateTemp string
  | CallFfmpeg "string list"
  | CallFfprobe "string list"
  | CallOpen string
  | CallPutObject string string string string
  | CallUpdateVideo video
  | CallRemove string
  | CallClose handle

text \<open>
  The state a request runs in: the paths that exist on the local disk, the rows of the
  metadata store, and the calls made so far, oldest first.
\<close>

record world =
  files :: "string set"
  db :: "uuid \<rightharpoonup> video"
  calls :: "call list"

datatype response =
    ErrorResponse nat string
  | JSONResponse nat video

section \<open>Probe and classification: \<^verbatim>\<open>getVideoAspectRatio\<close>\<close>

text \<open>
  The tail of \<^verbatim>\<open>getVideoAspectRatio\<close> (lines 57-62 of part_000, 53-58 of
  handler_upload_video.go, the same text in both): the comparison
  \<^verbatim>\<open>width == 16*height/9\<close> first, \<^verbatim>\<open>height == 16*width/9\<close> second.
\<close>

definition landscape_check :: "int \<Rightarrow> int \<Rightarrow> bool" where
  "landscape_check width height = (width = go_quo (go_mul 16 height) 9)"

definition portrait_check :: "int \<Rightarrow> int \<Rightarrow> bool" where
  "portrait_check width height = (height = go_quo (go_mul 16 width) 9)"

definition classify :: "int \<Rightarrow> int \<Rightarrow> string" where
  "classify width height =
     (if landscape_check width height then ''16:9''
      else if portrait_check width height then ''9:16''
      else ''other'')"

definition ffprobe_args :: "string \<Rightarrow> string list" where
  "ffprobe_args filePath =
     [''-v'', ''error'', ''-print_format'', ''json'', ''-show_streams'', filePath]"

definition ffprobe_args_rev1 :: "string \<Rightarrow> string list" where
  "ffprobe_args_rev1 filePath =
     [''-v error'', ''-print_format json'', ''-show_streams'', filePath]"

text \<open>From \<^verbatim>\<open>cmdPtr.Run()\<close> to the end of \<^verbatim>\<open>getVideoAspectRatio\<close>, the same in both files.\<close>

definition aspect_of_output :: "ffprobe_output \<Rightarrow> go_error + string" where
  "aspect_of_output out =
     (case out of
        ProbeExit \<Rightarrow> Inl ErrFfprobe
      | ProbeGarbage \<Rightarrow> Inl ErrUnmarshal
      | ProbeStreams streams \<Rightarrow>
          (case streams of
             [] \<Rightarrow> Inl ErrEmptyResult
           | (width, height) # _ \<Rightarrow> Inr (classify width height)))"

definition getVideoAspectRatio :: "env \<Rightarrow> string \<Rightarrow> world \<Rightarrow> (go_error + string) \<times> world" where
  "getVideoAspectRatio env filePath w =
     (aspect_of_output (ffprobe env (ffprobe_args filePath)),
      w\<lparr>calls := calls w @ [CallFfprobe (ffprobe_args filePath)]\<rparr>)"

definition getVideoAspectRatio_rev1 :: "env \<Rightarrow> string \<Rightarrow> world \<Rightarrow> (go_error + string) \<times> world" where
  "getVideoAspectRatio_rev1 env filePath w =
     (aspect_of_output (ffprobe env (ffprobe_args_rev1 filePath)),
      w\<lparr>calls := calls w @ [CallFfprobe (ffprobe_args_rev1 filePath)]\<rparr>)"

section \<open>Remux: \<^verbatim>\<open>processVideoForFastStart\<close>\<close>

text \<open>
  The run of \<^verbatim>\<open>ffmpeg\<close> is a call on the outside: its exit status decides what the function
  returns, and the output path is on the disk afterwards when the run has written it.
\<close>

definition ffmpeg_args :: "string \<Rightarrow> string \<Rightarrow> string list" where
  "ffmpeg_args filePath outputFilePath =
     [''-i'', filePath, ''-c'', ''copy'', ''-movflags'', ''faststart'', ''-f'', ''mp4'',
      outputFilePath]"

definition processVideoForFastStart :: "env \<Rightarrow> string \<Rightarrow> world \<Rightarrow> (go_error + string) \<times> world" where
  "processVideoForFastStart env filePath w =
     (let outputFilePath = filePath @ ''.processing'';
          run = ffmpeg env (ffmpeg_args filePath outputFilePath);
          w' = w\<lparr>files := (if output_written run then insert outputFilePath (files w)
                            else files w),
                 calls := calls w @ [CallFfmpeg (ffmpeg_args filePath outputFilePath)]\<rparr>
      in if \<not> exit_ok run then (Inl ErrFfmpeg, w') else (Inr outputFilePath, w'))"

section \<open>The stored reference\<close>

text \<open>
  \<^verbatim>\<open>strings.Split(s, ",")\<close>: the pieces of \<open>s\<close> between the separators, one more than there
  are separators. The result is never empty, so \<open>hd\<close> and \<open>tl\<close> of the recursive result
  are defined. A Go string is a sequence of bytes, as a \<open>string\<close> is here; the byte of
  the comma occurs in no multi-byte UTF-8 character.
\<close>

fun go_Split :: "char \<Rightarrow> string \<Rightarrow> string list" where
  "go_Split sep [] = [[]]"
| "go_Split sep (c # cs) =
     (let rest = go_Split sep cs
      in if c = sep then [] # rest else (c # hd rest) # tl rest)"

text \<open>Line 210 of part_000: \<^verbatim>\<open>cfg.s3Bucket + "," + key\<close>.\<close>

definition encode_reference :: "string \<Rightarrow> string \<Rightarrow> string" where
  "encode_reference bucket key = bucket @ '','' @ key"

text \<open>
  Lines 247-253 of part_000, inside \<^verbatim>\<open>dbVideoToSignedVideo\<close>: the split, the length check,
  \<^verbatim>\<open>split[0]\<close> and \<^verbatim>\<open>split[1]\<close> (both in range after the check).
\<close>

definition decode_reference :: "string \<Rightarrow> go_error + string \<times> string" where
  "decode_reference s =
     (let split = go_Split CHR '','' s
      in if length split < 2 then Inl ErrInvalidVideoURL
         else Inr (split ! 0, split ! 1))"

section \<open>Signing: \<^verbatim>\<open>generatePresignedURL\<close> and \<^verbatim>\<open>dbVideoToSignedVideo\<close>\<close>

text \<open>\<^verbatim>\<open>time.Minute\<close>, in nanoseconds as \<^verbatim>\<open>time.Duration\<close> counts.\<close>

definition Minute :: nat where
  "Minute = 60 * 1000000000"

definition generatePresignedURL :: "env \<Rightarrow> string \<Rightarrow> string \<Rightarrow> nat \<Rightarrow> go_error + string" where
  "generatePresignedURL env bucket key expireTime =
     (case PresignGetObject env bucket key expireTime of
        None \<Rightarrow> Inl ErrPresignObject
      | Some url \<Rightarrow> Inr url)"

text \<open>
  Go returns the pair \<^verbatim>\<open>(database.Video, error)\<close>; both components are kept, since the
  function returns its argument beside a non-nil error.
\<close>

definition dbVideoToSignedVideo :: "env \<Rightarrow> video \<Rightarrow> video \<times> go_error option" where
  "dbVideoToSignedVideo env video =
     (case VideoURL video of
        None \<Rightarrow> (video, None)
      | Some url \<Rightarrow>
          (case decode_reference url of
             Inl err \<Rightarrow> (video, Some err)
           | Inr (bucket, key) \<Rightarrow>
               (case generatePresignedURL env bucket key (Minute * 5) of
                  Inl err \<Rightarrow> (video, Some ErrGeneratePresigned)
                | Inr presignedURL \<Rightarrow> (video\<lparr>VideoURL := Some presignedURL\<rparr>, None))))"

section \<open>The upload handler\<close>

subsection \<open>Helpers declared outside the two files\<close>

definition StatusOK :: nat where "StatusOK = 200"
definition StatusBadRequest :: nat where "StatusBadRequest = 400"
definition StatusUnauthorized :: nat where "StatusUnauthorized = 401"
definition StatusInternalServerError :: nat where "StatusInternalServerError = 500"

text \<open>
  Modelled from the spec: \<^verbatim>\<open>respondWithError\<close> and \<^verbatim>\<open>respondWithJSON\<close> (the HTTP layer's
  JSON envelope, \<open>{error: string}\<close> on failure or the serialized record on success, with
  the status code). The \<^verbatim>\<open>err\<close> argument of \<^verbatim>\<open>respondWithError\<close> is only logged.
\<close>

definition respondWithError :: "nat \<Rightarrow> string \<Rightarrow> response" where
  "respondWithError code msg = ErrorResponse code msg"

definition respondWithJSON :: "nat \<Rightarrow> video \<Rightarrow> response" where
  "respondWithJSON code payload = JSONResponse code payload"

text \<open>
  Modelled from the spec: the metadata store, \<open>GetRecord(id) -> Record | NotFoundError\<close>
  and \<open>UpdateRecord(record) -> () | PersistenceError\<close>. An accepted update replaces the
  row of the record's identifier; a rejected one leaves the store as it was.
\<close>

definition GetVideo :: "world \<Rightarrow> uuid \<Rightarrow> video option" where
  "GetVideo w videoID = db w videoID"

definition UpdateVideo :: "env \<Rightarrow> video \<Rightarrow> world \<Rightarrow> bool \<times> world" where
  "UpdateVideo env v w =
     (if UpdateVideo_ok env v
      then (True, w\<lparr>db := (db w)(ID v \<mapsto> v), calls := calls w @ [CallUpdateVideo v]\<rparr>)
      else (False, w\<lparr>calls := calls w @ [CallUpdateVideo v]\<rparr>))"

text \<open>
  \<^verbatim>\<open>http.MaxBytesReader\<close> followed by \<^verbatim>\<open>r.ParseMultipartForm\<close>: an error when the body is
  longer than the limit or is not a multipart form. \<^verbatim>\<open>r.FormFile\<close> looks the field up.
\<close>

definition maxUploadSize :: nat where
  "maxUploadSize = 2 ^ 30"

definition ParseMultipartForm :: "request \<Rightarrow> nat \<Rightarrow> bool" where
  "ParseMultipartForm r limit = (body_size r \<le> limit \<and> form_wellformed r)"

definition FormFile :: "request \<Rightarrow> string \<Rightarrow> form_file option" where
  "FormFile r field = form_files r field"

subsection \<open>Deferred calls\<close>

text \<open>
  A \<^verbatim>\<open>defer\<close> statement pushes a call; the calls run when the handler returns, the last
  pushed first. The list of pending calls has the last pushed at its head.
\<close>

datatype deferred = DeferClose handle | DeferRemove string

fun run_deferred :: "deferred \<Rightarrow> world \<Rightarrow> world" where
  "run_deferred (DeferClose h) w = w\<lparr>calls := calls w @ [CallClose h]\<rparr>"
| "run_deferred (DeferRemove p) w =
     w\<lparr>files := files w - {p}, calls := calls w @ [CallRemove p]\<rparr>"

text \<open>The call that a pending deferred statement makes when it runs.\<close>

fun deferred_call :: "deferred \<Rightarrow> call" where
  "deferred_call (DeferClose h) = CallClose h"
| "deferred_call (DeferRemove p) = CallRemove p"

definition leave :: "deferred list \<Rightarrow> response \<Rightarrow> world \<Rightarrow> response \<times> world" where
  "leave pending resp w = (resp, fold run_deferred pending w)"

text \<open>The \<^verbatim>\<open>switch aspectRatio\<close> of both revisions.\<close>

definition directory_for :: "string \<Rightarrow> string" where
  "directory_for aspectRatio =
     (if aspectRatio = ''16:9'' then ''landscape''
      else if aspectRatio = ''9:16'' then ''portrait''
      else ''other'')"

subsection \<open>\<^verbatim>\<open>handlerUploadVideo\<close>, part_000\<close>

text \<open>
  The body of the handler is one straight line of steps, each of which either returns an
  error response or goes on. It is embedded in five consecutive segments, named after the
  states of the orchestrator; each segment ends by entering the next one, so the segments
  are defined last one first. \<open>pending\<close> is the stack of deferred calls on entry.

  Lines 195-226: object placement, persistence, signing, the response.
\<close>

definition handlerUploadVideo_store ::
    "apiConfig \<Rightarrow> env \<Rightarrow> video \<Rightarrow> string \<Rightarrow> deferred list \<Rightarrow> string \<Rightarrow> string \<Rightarrow> world
      \<Rightarrow> response \<times> world" where
  "handlerUploadVideo_store cfg env videoMetadata mediaType pending processedFilePath directory w =
    (let key = path_Join env directory (getAssetPath env mediaType);
         w1 = w\<lparr>calls := calls w @
                [CallPutObject (s3Bucket cfg) key processedFilePath mediaType]\<rparr>
     in if \<not> PutObject_ok env (s3Bucket cfg) key
        then leave pending (respondWithError StatusInternalServerError
          ''Couldn't put object into S3'') w1
        else
     let bucketAndKey = encode_reference (s3Bucket cfg) key;
         videoMetadata' = videoMetadata\<lparr>VideoURL := Some bucketAndKey\<rparr>
     in
    (case UpdateVideo env videoMetadata' w1 of
       (False, w2) \<Rightarrow>
         leave pending (respondWithError StatusInternalServerError ''Couldn't update video'') w2
     | (True, w2) \<Rightarrow>
    (case dbVideoToSignedVideo env videoMetadata' of
       (signedVideo, Some err) \<Rightarrow>
         leave pending (respondWithError StatusInternalServerError ''Couldn't sign video'') w2
     | (signedVideo, None) \<Rightarrow>
         leave pending (respondWithJSON StatusOK signedVideo) w2)))"

text \<open>Lines 163-193: remux, probe and classification, opening the remuxed file.\<close>

definition handlerUploadVideo_process ::
    "apiConfig \<Rightarrow> env \<Rightarrow> video \<Rightarrow> string \<Rightarrow> deferred list \<Rightarrow> string \<Rightarrow> world
      \<Rightarrow> response \<times> world" where
  "handlerUploadVideo_process cfg env videoMetadata mediaType pending tempFile w =
    (case processVideoForFastStart env tempFile w of
       (Inl err, w1) \<Rightarrow>
         leave pending (respondWithError StatusInternalServerError
           ''failed to process video'') w1
     | (Inr processedFilePath, w1) \<Rightarrow>
    (case getVideoAspectRatio env processedFilePath w1 of
       (Inl err, w2) \<Rightarrow>
         leave pending (respondWithError StatusInternalServerError
           ''Error determining aspect ratio'') w2
     | (Inr aspectRatio, w2) \<Rightarrow>
         let directory = directory_for aspectRatio;
             w3 = w2\<lparr>calls := calls w2 @ [CallOpen processedFilePath]\<rparr>
         in if \<not> os_Open env processedFilePath
            then leave pending (respondWithError StatusInternalServerError
              ''failed to open processed file'') w3
            else handlerUploadVideo_store cfg env videoMetadata mediaType
                   (DeferClose (OsFile processedFilePath) # DeferRemove processedFilePath #
                    pending)
                   processedFilePath directory w3))"

text \<open>Lines 143-161: the temporary file, the copy of the upload into it, the seek.\<close>

definition handlerUploadVideo_stage ::
    "apiConfig \<Rightarrow> env \<Rightarrow> video \<Rightarrow> string \<Rightarrow> deferred list \<Rightarrow> world \<Rightarrow> response \<times> world" where
  "handlerUploadVideo_stage cfg env videoMetadata mediaType pending w =
    (case os_CreateTemp env [] ''tubely-upload.mp4'' of
       None \<Rightarrow>
         leave pending (respondWithError StatusInternalServerError
           ''failed to create temp file'') w
     | Some tempFile \<Rightarrow>
         let w1 = w\<lparr>files := insert tempFile (files w),
                     calls := calls w @ [CallCreateTemp tempFile]\<rparr>;
             pending' = DeferClose (OsFile tempFile) # DeferRemove tempFile # pending
         in if \<not> io_Copy_ok env
            then leave pending' (respondWithError StatusInternalServerError
              ''failed to copy file to disk'') w1
            else if \<not> Seek_ok env
            then leave pending' (respondWithError StatusInternalServerError
              ''Could not reset file pointer'') w1
            else handlerUploadVideo_process cfg env videoMetadata mediaType pending' tempFile w1)"

text \<open>Lines 117-141: the size limit, the multipart form, the file field, its media type.\<close>

definition handlerUploadVideo_validate ::
    "apiConfig \<Rightarrow> env \<Rightarrow> request \<Rightarrow> video \<Rightarrow> world \<Rightarrow> response \<times> world" where
  "handlerUploadVideo_validate cfg env r videoMetadata w =
    (if \<not> ParseMultipartForm r maxUploadSize
     then leave [] (respondWithError StatusBadRequest ''Exceeded max upload file size'') w
     else
    (case FormFile r ''video'' of
       None \<Rightarrow> leave [] (respondWithError StatusBadRequest ''Unable to parse form file'') w
     | Some file \<Rightarrow>
    (case ParseMediaType env (content_type file) of
       None \<Rightarrow>
         leave [DeferClose FormFile_video]
           (respondWithError StatusBadRequest ''failed to get content type'') w
     | Some mediaType \<Rightarrow>
         if mediaType \<noteq> ''video/mp4''
         then leave [DeferClose FormFile_video]
           (respondWithError StatusBadRequest ''incorrect file type'') w
         else handlerUploadVideo_stage cfg env videoMetadata mediaType
                [DeferClose FormFile_video] w)))"

text \<open>Lines 84-115, the entry of the handler: the identifier, the credential, the owner.\<close>

definition handlerUploadVideo :: "apiConfig \<Rightarrow> env \<Rightarrow> request \<Rightarrow> world \<Rightarrow> response \<times> world" where
  "handlerUploadVideo cfg env r w =
    (case uuid_Parse env (PathValue_videoID r) of
       None \<Rightarrow> leave [] (respondWithError StatusBadRequest ''Invalid video ID'') w
     | Some videoID \<Rightarrow>
    (case GetBearerToken env (Header r) of
       None \<Rightarrow> leave [] (respondWithError StatusUnauthorized ''Couldn't get JWT from header'') w
     | Some token \<Rightarrow>
    (case ValidateJWT env token (jwtSecret cfg) of
       None \<Rightarrow> leave [] (respondWithError StatusUnauthorized ''Invalid JWT'') w
     | Some userID \<Rightarrow>
    (case GetVideo w videoID of
       None \<Rightarrow>
         leave [] (respondWithError StatusInternalServerError
           ''Failed to get video from database'') w
     | Some videoMetadata \<Rightarrow>
         if UserID videoMetadata \<noteq> userID
         then leave [] (respondWithError StatusUnauthorized ''Video is not yours!'') w
         else handlerUploadVideo_validate cfg env r videoMetadata w))))"

subsection \<open>\<^verbatim>\<open>handlerUploadVideo\<close>, handler_upload_video.go\<close>

text \<open>
  The earlier revision, in the same segments. Lines 138-175: probe of the staged file,
  object placement of the staged file, the raw URL, persistence, the response.
\<close>

definition handlerUploadVideo_rev1_store ::
    "apiConfig \<Rightarrow> env \<Rightarrow> video \<Rightarrow> string \<Rightarrow> deferred list \<Rightarrow> string \<Rightarrow> world
      \<Rightarrow> response \<times> world" where
  "handlerUploadVideo_rev1_store cfg env videoMetadata mediaType pending tempFile w =
    (case getVideoAspectRatio_rev1 env tempFile w of
       (Inl err, w1) \<Rightarrow>
         leave pending (respondWithError StatusInternalServerError
           ''Error determining aspect ratio'') w1
     | (Inr aspectRatio, w1) \<Rightarrow>
         let directory = directory_for aspectRatio;
             key = path_Join env directory (getAssetPath env mediaType);
             w2 = w1\<lparr>calls := calls w1 @
                    [CallPutObject (s3Bucket cfg) key tempFile mediaType]\<rparr>
         in if \<not> PutObject_ok env (s3Bucket cfg) key
            then leave pending (respondWithError StatusInternalServerError
              ''Couldn't put object into S3'') w2
            else
         let s3FileURL = getVideoURL env key;
             videoMetadata' = videoMetadata\<lparr>VideoURL := Some s3FileURL\<rparr>
         in
    (case UpdateVideo env videoMetadata' w2 of
       (False, w3) \<Rightarrow>
         leave pending (respondWithError StatusInternalServerError ''Couldn't update video'') w3
     | (True, w3) \<Rightarrow>
         leave pending (respondWithJSON StatusOK videoMetadata') w3))"

text \<open>Lines 118-136.\<close>

definition handlerUploadVideo_rev1_stage ::
    "apiConfig \<Rightarrow> env \<Rightarrow> video \<Rightarrow> string \<Rightarrow> deferred list \<Rightarrow> world \<Rightarrow> response \<times> world" where
  "handlerUploadVideo_rev1_stage cfg env videoMetadata mediaType pending w =
    (case os_CreateTemp env [] ''tubely-upload.mp4'' of
       None \<Rightarrow>
         leave pending (respondWithError StatusInternalServerError
           ''failed to create temp file'') w
     | Some tempFile \<Rightarrow>
         let w1 = w\<lparr>files := insert tempFile (files w),
                     calls := calls w @ [CallCreateTemp tempFile]\<rparr>;
             pending' = DeferClose (OsFile tempFile) # DeferRemove tempFile # pending
         in if \<not> io_Copy_ok env
            then leave pending' (respondWithError StatusInternalServerError
              ''failed to copy file to disk'') w1
            else if \<not> Seek_ok env
            then leave pending' (respondWithError StatusInternalServerError
              ''Could not reset file pointer'') w1
            else handlerUploadVideo_rev1_store cfg env videoMetadata mediaType pending'
                   tempFile w1)"

text \<open>Lines 92-116.\<close>

definition handlerUploadVideo_rev1_validate ::
    "apiConfig \<Rightarrow> env \<Rightarrow> request \<Rightarrow> video \<Rightarrow> world \<Rightarrow> response \<times> world" where
  "handlerUploadVideo_rev1_validate cfg env r videoMetadata w =
    (if \<not> ParseMultipartForm r maxUploadSize
     then leave [] (respondWithError StatusBadRequest ''Exceeded max upload file size'') w
     else
    (case FormFile r ''video'' of
       None \<Rightarrow> leave [] (respondWithError StatusBadRequest ''Unable to parse form file'') w
     | Some file \<Rightarrow>
    (case ParseMediaType env (content_type file) of
       None \<Rightarrow>
         leave [DeferClose FormFile_video]
           (respondWithError StatusBadRequest ''failed to get content type'') w
     | Some mediaType \<Rightarrow>
         if mediaType \<noteq> ''video/mp4''
         then leave [DeferClose FormFile_video]
           (respondWithError StatusBadRequest ''incorrect file type'') w
         else handlerUploadVideo_rev1_stage cfg env videoMetadata mediaType
                [DeferClose FormFile_video] w)))"

text \<open>Lines 61-90, the entry of the earlier revision.\<close>

definition handlerUploadVideo_rev1 :: "apiConfig \<Rightarrow> env \<Rightarrow> request \<Rightarrow> world \<Rightarrow> response \<times> world" where
  "handlerUploadVideo_rev1 cfg env r w =
    (case uuid_Parse env (PathValue_videoID r) of
       None \<Rightarrow> leave [] (respondWithError StatusBadRequest ''Invalid video ID'') w
     | Some videoID \<Rightarrow>
    (case GetBearerToken env (Header r) of
       None \<Rightarrow> leave [] (respondWithError StatusUnauthorized ''Couldn't get JWT from header'') w
     | Some token \<Rightarrow>
    (case ValidateJWT env token (jwtSecret cfg) of
       None \<Rightarrow> leave [] (respondWithError StatusUnauthorized ''Invalid JWT'') w
     | Some userID \<Rightarrow>
    (case GetVideo w videoID of
       None \<Rightarrow>
         leave [] (respondWithError StatusInternalServerError
           ''Failed to get video from database'') w
     | Some videoMetadata \<Rightarrow>
         if UserID videoMetadata \<noteq> userID
         then leave [] (respondWithError StatusUnauthorized ''Video is not yours!'') w
         else handlerUploadVideo_rev1_validate cfg env r videoMetadata w))))"

text \<open>The calls a run has added to those made before it.\<close>

definition calls_during :: "world \<Rightarrow> world \<Rightarrow> call list" where
  "calls_during w w' = drop (length (calls w)) (calls w')"

text \<open>
  Every call of \<^verbatim>\<open>ffprobe\<close> in the list reads the file (its last argument) that an earlier
  call of \<^verbatim>\<open>ffmpeg\<close> in the list was given as its output (its last argument).
\<close>

fun remux_then_probe :: "string list \<Rightarrow> call list \<Rightarrow> bool" where
  "remux_then_probe outs [] = True"
| "remux_then_probe outs (CallFfmpeg args # cs) = remux_then_probe (last args # outs) cs"
| "remux_then_probe outs (CallFfprobe args # cs) =
     (last args \<in> set outs \<and> remux_then_probe outs cs)"
| "remux_then_probe outs (c # cs) = remux_then_probe outs cs"

text \<open>
  Every object-store write in the list uploads the output file of a successful remux made
  in the list, under a key whose directory comes from probing that output file.
\<close>

definition placed_from_remux :: "env \<Rightarrow> call list \<Rightarrow> bool" where
  "placed_from_remux env cs =
     (\<forall>bucket key body mediaType.
        CallPutObject bucket key body mediaType \<in> set cs \<longrightarrow>
        (\<exists>tempFile aspectRatio.
           body = tempFile @ ''.processing'' \<and>
           CallFfmpeg (ffmpeg_args tempFile body) \<in> set cs \<and>
           exit_ok (ffmpeg env (ffmpeg_args tempFile body)) \<and>
           CallFfprobe (ffprobe_args body) \<in> set cs \<and>
           aspect_of_output (ffprobe env (ffprobe_args body)) = Inr aspectRatio \<and>
           key = path_Join env (directory_for aspectRatio) (getAssetPath env mediaType)))"

section \<open>A concrete run\<close>

text \<open>
  One configuration, one record, one well-formed request and collaborators that all
  succeed; the theorems below are instantiated at these and at variants of them.
\<close>

definition demo_cfg :: apiConfig where
  "demo_cfg = \<lparr>jwtSecret = ''secret'', s3Bucket = ''bucket1''\<rparr>"

definition demo_video :: video where
  "demo_video = \<lparr>ID = UUID 1, UserID = UUID 7, VideoURL = None\<rparr>"

definition demo_env :: env where
  "demo_env =
     \<lparr>uuid_Parse = (\<lambda>s. if s = ''v1'' then Some (UUID 1) else None),
      GetBearerToken = (\<lambda>h. map_of h ''Authorization''),
      ValidateJWT = (\<lambda>token secret.
         if token = ''alice'' then Some (UUID 7)
         else if token = ''bob'' then Some (UUID 8) else None),
      ParseMediaType = (\<lambda>s. if s = [] then None else Some s),
      os_CreateTemp = (\<lambda>dir pattern. Some (''/tmp/'' @ pattern @ ''42'')),
      io_Copy_ok = True,
      Seek_ok = True,
      ffmpeg = (\<lambda>args. FfmpegExit True True),
      ffprobe = (\<lambda>args. ProbeStreams [(1920, 1080)]),
      os_Open = (\<lambda>p. True),
      getAssetPath = (\<lambda>mediaType. ''abc.mp4''),
      path_Join = (\<lambda>dir name. dir @ ''/'' @ name),
      PutObject_ok = (\<lambda>bucket key. True),
      UpdateVideo_ok = (\<lambda>v. True),
      PresignGetObject = (\<lambda>bucket key expires. Some (''https://'' @ bucket @ ''/'' @ key @ ''?sig'')),
      getVideoURL = (\<lambda>key. ''https://bucket1/'' @ key)\<rparr>"

definition demo_request :: request where
  "demo_request =
     \<lparr>PathValue_videoID = ''v1'',
      Header = [(''Authorization'', ''alice'')],
      body_size = 1000,
      form_wellformed = True,
      form_files = [''video'' \<mapsto> \<lparr>content_type = ''video/mp4'', content = ''data''\<rparr>]\<rparr>"

definition demo_request_bob :: request where
  "demo_request_bob = demo_request\<lparr>Header := [(''Authorization'', ''bob'')]\<rparr>"

definition demo_request_png :: request where
  "demo_request_png =
     demo_request\<lparr>form_files :=
       [''video'' \<mapsto> \<lparr>content_type = ''image/png'', content = ''data''\<rparr>]\<rparr>"

definition demo_env_probe_fails :: env where
  "demo_env_probe_fails = demo_env\<lparr>ffprobe := (\<lambda>args. ProbeExit)\<rparr>"

definition demo_env_presign_fails :: env where
  "demo_env_presign_fails = demo_env\<lparr>PresignGetObject := (\<lambda>bucket key expires. None)\<rparr>"

definition demo_world :: world where
  "demo_world = \<lparr>files = {}, db = [UUID 1 \<mapsto> demo_video], calls = []\<rparr>"

section \<open>The classifier\<close>

subsection \<open>Arithmetic without overflow\<close>

lemma wrap64_id: "is_int64 x \<Longrightarrow> wrap64 x = x"
  by (simp add: is_int64_def wrap64_def)

lemma go_quo_9: "0 \<le> a \<Longrightarrow> go_quo a 9 = a div 9"
  by (simp add: go_quo_def)

lemma go_mul_16_small: "0 \<le> x \<Longrightarrow> x < 2 ^ 59 \<Longrightarrow> go_mul 16 x = 16 * x"
  by (simp add: go_mul_def wrap64_id is_int64_def)

lemma landscape_check_small:
  "0 \<le> h \<Longrightarrow> h < 2 ^ 59 \<Longrightarrow> landscape_check w h = (w = 16 * h div 9)"
  by (simp add: landscape_check_def go_mul_16_small go_quo_9)

lemma portrait_check_small:
  "0 \<le> w \<Longrightarrow> w < 2 ^ 59 \<Longrightarrow> portrait_check w h = (h = 16 * w div 9)"
  by (simp add: portrait_check_def go_mul_16_small go_quo_9)

lemma classify_examples:
  "classify 1920 1080 = ''16:9''" "classify 1080 1920 = ''9:16''" "classify 640 480 = ''other''"
  by (simp_all add: classify_def landscape_check_def portrait_check_def go_mul_def go_quo_def
      wrap64_def)

text \<open>
  Claim C2, as stated, at two inputs. At (1, 1) the height equals \<open>16 * width div 9\<close>, so the
  claim asks for Portrait, and the classifier answers Landscape, its first test holding
  too. At (0, 2^60) the product \<open>16 * height\<close> wraps around to 0, so the classifier answers
  Landscape, although the width is not \<open>16 * height div 9\<close>.
\<close>

theorem classify_iff_counterexample:
  "classify 1 1 = ''16:9'' \<and> (1::int) = 16 * 1 div 9 \<and>
   classify 0 (2 ^ 60) = ''16:9'' \<and> (0::int) \<noteq> 16 * 2 ^ 60 div 9"
  by (simp add: classify_def landscape_check_def portrait_check_def go_mul_def go_quo_def
      wrap64_def)

text \<open>
  Claim C2, amended: for non-negative width and height below \<open>2^59\<close> (so that sixteen
  times either fits a 64-bit \<^verbatim>\<open>int\<close>), the classifier returns Landscape exactly when the
  width is \<open>16 * height div 9\<close>, Portrait exactly when the height is \<open>16 * width div 9\<close> and
  the Landscape test fails, and Other exactly when both tests fail.
\<close>

theorem classify_in_range:
  assumes "0 \<le> w" "w < 2 ^ 59" "0 \<le> h" "h < 2 ^ 59"
  shows "(classify w h = ''16:9'' \<longleftrightarrow> w = 16 * h div 9) \<and>
         (classify w h = ''9:16'' \<longleftrightarrow> h = 16 * w div 9 \<and> w \<noteq> 16 * h div 9) \<and>
         (classify w h = ''other'' \<longleftrightarrow> w \<noteq> 16 * h div 9 \<and> h \<noteq> 16 * w div 9)"
  using assms by (simp add: classify_def landscape_check_small portrait_check_small)

theorem classify_in_range_witness:
  "(0::int) \<le> 1920 \<and> (1920::int) < 2 ^ 59 \<and> (0::int) \<le> 1080 \<and> (1080::int) < 2 ^ 59 \<and>
   (0::int) \<le> 640 \<and> (640::int) < 2 ^ 59 \<and> (0::int) \<le> 480 \<and> (480::int) < 2 ^ 59 \<and>
   classify 1920 1080 = ''16:9'' \<and> classify 1080 1920 = ''9:16'' \<and>
   classify 640 480 = ''other''"
  using classify_in_range [of 1920 1080] classify_in_range [of 1080 1920]
    classify_in_range [of 640 480]
  by simp

subsection \<open>Pairs that pass both tests\<close>

lemma wrap64_decomp: "\<exists>k. wrap64 x = x - k * 2 ^ 64 \<and> (0 \<le> x \<longrightarrow> 0 \<le> k)"
proof -
  let ?k = "(x + 2 ^ 63) div 2 ^ 64"
  have "(x + 2 ^ 63) mod 2 ^ 64 = (x + 2 ^ 63) - ?k * 2 ^ 64"
    by (simp add: minus_div_mult_eq_mod)
  then have "wrap64 x = x - ?k * 2 ^ 64" by (simp add: wrap64_def)
  moreover have "0 \<le> x \<longrightarrow> 0 \<le> ?k" by (simp add: pos_imp_zdiv_nonneg_iff)
  ultimately show ?thesis by blast
qed

lemma wrap64_upper: "wrap64 x < 2 ^ 63"
proof -
  have "(x + 2 ^ 63) mod 2 ^ 64 < (2 ^ 64 :: int)" by simp
  then show ?thesis by (simp add: wrap64_def)
qed

lemma go_quo_9_bounds:
  assumes "0 \<le> q" "q = go_quo v 9"
  shows "9 * q - 8 \<le> v \<and> v \<le> 9 * q + 8"
proof (cases "v < 0")
  case True
  with assms have "q = - (- v div 9)" by (simp add: go_quo_def)
  with assms(1) True show ?thesis by linarith
next
  case False
  with assms have "q = v div 9" by (simp add: go_quo_def)
  then show ?thesis by linarith
qed

lemma both_small:
  assumes "0 \<le> w" "0 \<le> h" "landscape_check w h" "portrait_check w h"
  shows "w + h \<le> 2"
proof -
  obtain k1 where k1: "go_mul 16 h = 16 * h - k1 * 2 ^ 64" "0 \<le> k1"
    using wrap64_decomp [of "16 * h"] assms(2) by (auto simp: go_mul_def)
  obtain k2 where k2: "go_mul 16 w = 16 * w - k2 * 2 ^ 64" "0 \<le> k2"
    using wrap64_decomp [of "16 * w"] assms(1) by (auto simp: go_mul_def)
  have u1: "go_mul 16 h < 2 ^ 63" and u2: "go_mul 16 w < 2 ^ 63"
    using wrap64_upper [of "16 * h"] wrap64_upper [of "16 * w"] by (simp_all add: go_mul_def)
  have b1: "9 * w - 8 \<le> go_mul 16 h \<and> go_mul 16 h \<le> 9 * w + 8"
    using go_quo_9_bounds [OF assms(1)] assms(3) by (simp add: landscape_check_def)
  have b2: "9 * h - 8 \<le> go_mul 16 w \<and> go_mul 16 w \<le> 9 * h + 8"
    using go_quo_9_bounds [OF assms(2)] assms(4) by (simp add: portrait_check_def)
  have "k1 + k2 \<le> 0"
  proof (rule ccontr)
    assume "\<not> k1 + k2 \<le> 0"
    then have "1 \<le> k1 + k2" by simp
    then have "(2::int) ^ 64 \<le> (k1 + k2) * 2 ^ 64" by simp
    with k1 k2 u1 u2 b1 b2 show False by (simp add: algebra_simps)
  qed
  with k1 k2 have "k1 = 0" "k2 = 0" by simp_all
  with k1 k2 b1 b2 show ?thesis by simp
qed

lemma checks_at_small:
  "landscape_check 0 0" "portrait_check 0 0" "landscape_check 1 1" "portrait_check 1 1"
  "\<not> landscape_check 1 0" "\<not> landscape_check 0 1" "\<not> landscape_check 2 0" "\<not> landscape_check 0 2"
  by (simp_all add: landscape_check_def portrait_check_def go_mul_def go_quo_def wrap64_def)
lemma both_iff:
  assumes "0 \<le> w" "0 \<le> h"
  shows "(landscape_check w h \<and> portrait_check w h) \<longleftrightarrow> (w = 0 \<and> h = 0) \<or> (w = 1 \<and> h = 1)"
proof
  assume b: "landscape_check w h \<and> portrait_check w h"
  then have "w + h \<le> 2" using both_small assms by blast
  with assms have "(w = 0 \<and> h = 0) \<or> (w = 1 \<and> h = 1) \<or> (w = 1 \<and> h = 0) \<or> (w = 0 \<and> h = 1)
     \<or> (w = 2 \<and> h = 0) \<or> (w = 0 \<and> h = 2)" by auto
  with b show "(w = 0 \<and> h = 0) \<or> (w = 1 \<and> h = 1)"
    using checks_at_small by blast
next
  assume "(w = 0 \<and> h = 0) \<or> (w = 1 \<and> h = 1)"
  then show "landscape_check w h \<and> portrait_check w h"
    using checks_at_small by blast
qed

text \<open>
  Claim C7, as stated, at width = height = 1: both tests hold there, since \<open>16 div 9 = 1\<close>,
  so (0, 0) is not the only pair that passes both.
\<close>

theorem both_checks_counterexample:
  "landscape_check 1 1 \<and> portrait_check 1 1 \<and> classify 1 1 = ''16:9''"
  by (simp add: classify_def checks_at_small)

text \<open>
  Claim C7, amended: the Landscape test comes first, so a pair that passes both tests is
  Landscape; the non-negative pairs that pass both are (0, 0) and (1, 1), and no other;
  and the classifier returns one of its three answers for every pair.
\<close>

theorem both_checks_tie_break:
  assumes "0 \<le> w" "0 \<le> h"
  shows "(landscape_check w h \<and> portrait_check w h \<longrightarrow> classify w h = ''16:9'') \<and>
         (landscape_check w h \<and> portrait_check w h \<longleftrightarrow>
            (w = 0 \<and> h = 0) \<or> (w = 1 \<and> h = 1)) \<and>
         classify w h \<in> {''16:9'', ''9:16'', ''other''}"
proof -
  have "landscape_check w h \<longrightarrow> classify w h = ''16:9''"
    by (simp add: classify_def)
  moreover have "classify w h \<in> {''16:9'', ''9:16'', ''other''}"
    by (simp add: classify_def)
  ultimately show ?thesis using both_iff [OF assms] by blast
qed

theorem both_checks_tie_break_witness:
  "(0::int) \<le> 1 \<and> landscape_check 1 1 \<and> portrait_check 1 1 \<and> classify 1 1 = ''16:9'' \<and>
   classify 1 1 \<in> {''16:9'', ''9:16'', ''other''}"
  using both_checks_tie_break [of 1 1] by (simp add: checks_at_small)

section \<open>The stored reference\<close>

lemma go_Split_not_Nil: "go_Split d s \<noteq> []"
  by (induction s) (simp_all add: Let_def)

lemma go_Split_no_sep: "d \<notin> set s \<Longrightarrow> go_Split d s = [s]"
  by (induction s) (auto simp: Let_def)

lemma go_Split_append: "d \<notin> set a \<Longrightarrow> go_Split d (a @ d # b) = a # go_Split d b"
  by (induction a) (auto simp: Let_def)

lemma takeWhile_no_sep: "d \<notin> set s \<Longrightarrow> takeWhile (\<lambda>c. c \<noteq> d) s = s"
  by (induction s) auto

lemma go_Split_first_sep:
  "d \<in> set s \<Longrightarrow>
   go_Split d s = takeWhile (\<lambda>c. c \<noteq> d) s # go_Split d (tl (dropWhile (\<lambda>c. c \<noteq> d) s))"
proof (induction s)
  case Nil
  then show ?case by simp
next
  case (Cons c cs)
  show ?case
  proof (cases "c = d")
    case True
    then show ?thesis by (simp add: Let_def)
  next
    case False
    with Cons.prems have "d \<in> set cs" by simp
    with Cons.IH False show ?thesis by (simp add: Let_def)
  qed
qed

lemma hd_go_Split: "hd (go_Split d s) = takeWhile (\<lambda>c. c \<noteq> d) s"
proof (cases "d \<in> set s")
  case True
  then show ?thesis by (simp add: go_Split_first_sep)
next
  case False
  then show ?thesis by (simp add: go_Split_no_sep takeWhile_no_sep)
qed

lemma length_go_Split: "length (go_Split d s) < 2 \<longleftrightarrow> d \<notin> set s"
proof (cases "d \<in> set s")
  case True
  then have "length (go_Split d s) = Suc (length (go_Split d (tl (dropWhile (\<lambda>c. c \<noteq> d) s))))"
    by (simp add: go_Split_first_sep)
  moreover have "0 < length (go_Split d (tl (dropWhile (\<lambda>c. c \<noteq> d) s)))"
    by (simp add: go_Split_not_Nil)
  ultimately show ?thesis using True by simp
next
  case False
  then show ?thesis by (simp add: go_Split_no_sep)
qed

text \<open>
  Claim C4, as stated, at a reference with two delimiters: the key returned is the text
  between the first and the second delimiter, not everything after the first.
\<close>

theorem decode_second_delimiter_counterexample:
  "decode_reference ''b,k1,k2'' = Inr (''b'', ''k1'') \<and>
   decode_reference ''b,k1,k2'' \<noteq> Inr (''b'', ''k1,k2'')"
  by (simp add: decode_reference_def Let_def)

text \<open>
  Claim C4, amended: decoding splits at every delimiter. It fails with the invalid
  reference error exactly when the string has no delimiter; otherwise the container is
  the text before the first delimiter and the key is the text after the first delimiter
  up to the second one, or to the end when there is no second one.
\<close>

theorem decode_reference_components:
  "decode_reference s =
     (if CHR '','' \<in> set s
      then Inr (takeWhile (\<lambda>c. c \<noteq> CHR '','') s,
                takeWhile (\<lambda>c. c \<noteq> CHR '','') (tl (dropWhile (\<lambda>c. c \<noteq> CHR '','') s)))
      else Inl ErrInvalidVideoURL)"
proof (cases "CHR '','' \<in> set s")
  case True
  let ?rest = "tl (dropWhile (\<lambda>c. c \<noteq> CHR '','') s)"
  have sp: "go_Split CHR '','' s = takeWhile (\<lambda>c. c \<noteq> CHR '','') s # go_Split CHR '','' ?rest"
    using True by (rule go_Split_first_sep)
  have "go_Split CHR '','' ?rest ! 0 = hd (go_Split CHR '','' ?rest)"
    using go_Split_not_Nil [of "CHR '',''" ?rest] by (simp add: hd_conv_nth)
  then have "go_Split CHR '','' s ! 1 = takeWhile (\<lambda>c. c \<noteq> CHR '','') ?rest"
    by (simp add: sp hd_go_Split)
  moreover have "\<not> length (go_Split CHR '','' s) < 2"
    using True by (simp add: length_go_Split)
  ultimately show ?thesis using True by (simp add: decode_reference_def Let_def sp)
next
  case False
  then show ?thesis by (simp add: decode_reference_def Let_def length_go_Split)
qed

theorem decode_reference_components_witness:
  "decode_reference ''bucket1,a/b/c'' = Inr (''bucket1'', ''a/b/c'') \<and>
   decode_reference ''onlyonepart'' = Inl ErrInvalidVideoURL"
  using decode_reference_components [of "''bucket1,a/b/c''"]
    decode_reference_components [of "''onlyonepart''"]
  by simp

text \<open>
  Claim C3: for a container and a key without the delimiter, decoding the encoded pair
  gives the pair back.
\<close>

theorem reference_roundtrip:
  assumes "CHR '','' \<notin> set c" "CHR '','' \<notin> set k"
  shows "decode_reference (encode_reference c k) = Inr (c, k)"
proof -
  have "go_Split CHR '','' (c @ CHR '','' # k) = c # go_Split CHR '','' k"
    using assms(1) by (rule go_Split_append)
  also have "go_Split CHR '','' k = [k]"
    using assms(2) by (rule go_Split_no_sep)
  finally have "go_Split CHR '','' (encode_reference c k) = [c, k]"
    by (simp add: encode_reference_def)
  then show ?thesis
    by (simp add: decode_reference_def)
qed

theorem reference_roundtrip_witness:
  "CHR '','' \<notin> set ''bucket1'' \<and> CHR '','' \<notin> set ''a/b/c'' \<and>
   decode_reference (encode_reference ''bucket1'' ''a/b/c'') = Inr (''bucket1'', ''a/b/c'')"
  using reference_roundtrip [of "''bucket1''" "''a/b/c''"] by simp

section \<open>Signing a stored record\<close>

lemma signed_video:
  assumes "dbVideoToSignedVideo env v = (payload, None)" "VideoURL v = Some u"
  shows "\<exists>bucket key url. decode_reference u = Inr (bucket, key) \<and>
           PresignGetObject env bucket key (Minute * 5) = Some url \<and>
           payload = v\<lparr>VideoURL := Some url\<rparr>"
  using assms
  by (auto simp: dbVideoToSignedVideo_def generatePresignedURL_def
      split: option.splits sum.splits)

text \<open>
  Claim C10: a record without a stored reference comes back unchanged and without an
  error; when decoding fails, and when signing fails, the record comes back unchanged
  beside the error; whenever an error is returned, the record returned is the argument.
\<close>

theorem dbVideoToSignedVideo_unchanged:
  "(VideoURL v = None \<longrightarrow> dbVideoToSignedVideo env v = (v, None)) \<and>
   (VideoURL v = Some u \<and> decode_reference u = Inl e \<longrightarrow>
      dbVideoToSignedVideo env v = (v, Some e)) \<and>
   (VideoURL v = Some u \<and> decode_reference u = Inr (bucket, key) \<and>
    PresignGetObject env bucket key (Minute * 5) = None \<longrightarrow>
      dbVideoToSignedVideo env v = (v, Some ErrGeneratePresigned)) \<and>
   (snd (dbVideoToSignedVideo env v) \<noteq> None \<longrightarrow> fst (dbVideoToSignedVideo env v) = v)"
  by (auto simp: dbVideoToSignedVideo_def generatePresignedURL_def
      split: option.splits sum.splits)

theorem dbVideoToSignedVideo_unchanged_witness:
  "VideoURL demo_video = None \<and>
   dbVideoToSignedVideo demo_env demo_video = (demo_video, None) \<and>
   decode_reference ''onlyonepart'' = Inl ErrInvalidVideoURL \<and>
   dbVideoToSignedVideo demo_env (demo_video\<lparr>VideoURL := Some ''onlyonepart''\<rparr>) =
     (demo_video\<lparr>VideoURL := Some ''onlyonepart''\<rparr>, Some ErrInvalidVideoURL) \<and>
   decode_reference ''bucket1,a/b/c'' = Inr (''bucket1'', ''a/b/c'') \<and>
   PresignGetObject demo_env_presign_fails ''bucket1'' ''a/b/c'' (Minute * 5) = None \<and>
   dbVideoToSignedVideo demo_env_presign_fails (demo_video\<lparr>VideoURL := Some ''bucket1,a/b/c''\<rparr>) =
     (demo_video\<lparr>VideoURL := Some ''bucket1,a/b/c''\<rparr>, Some ErrGeneratePresigned)"
  using
    dbVideoToSignedVideo_unchanged [of demo_video demo_env]
    dbVideoToSignedVideo_unchanged [of "demo_video\<lparr>VideoURL := Some ''onlyonepart''\<rparr>"
      demo_env "''onlyonepart''" ErrInvalidVideoURL]
    dbVideoToSignedVideo_unchanged [of "demo_video\<lparr>VideoURL := Some ''bucket1,a/b/c''\<rparr>"
      demo_env_presign_fails "''bucket1,a/b/c''" _ "''bucket1''" "''a/b/c''"]
  by (simp add: decode_reference_def Let_def demo_video_def demo_env_presign_fails_def
      demo_env_def)

section \<open>The upload handler\<close>

subsection \<open>Deferred calls and leaving the handler\<close>

lemma calls_run_deferred: "calls (run_deferred d w) = calls w @ [deferred_call d]"
  by (cases d) simp_all

lemma db_run_deferred: "db (run_deferred d w) = db w"
  by (cases d) simp_all

lemma calls_fold_deferred:
  "calls (fold run_deferred pending w) = calls w @ map deferred_call pending"
  by (induction pending arbitrary: w) (simp_all add: calls_run_deferred)

lemma db_fold_deferred: "db (fold run_deferred pending w) = db w"
  by (induction pending arbitrary: w) (simp_all add: db_run_deferred)

lemma remux_then_probe_deferred:
  "remux_then_probe outs (map deferred_call pending @ cs) = remux_then_probe outs cs"
proof (induction pending)
  case Nil
  then show ?case by simp
next
  case (Cons d pending)
  then show ?case by (cases d) simp_all
qed

lemma remux_then_probe_deferred_only: "remux_then_probe outs (map deferred_call pending)"
  using remux_then_probe_deferred [of outs pending "[]"] by simp

lemma PutObject_not_deferred:
  "CallPutObject b k body m \<noteq> deferred_call d" "deferred_call d \<noteq> CallPutObject b k body m"
  by (cases d; simp)+

lemma leave_not_JSON:
  "fst (leave pending (respondWithError code msg) w) \<noteq> JSONResponse code' payload"
  by (simp add: leave_def respondWithError_def)

lemma last_args: "last (ffmpeg_args t out) = out" "last (ffprobe_args out) = out"
  by (simp_all add: ffmpeg_args_def ffprobe_args_def)

lemma call_distinct_args:
  "CallFfmpeg (ffmpeg_args t out) \<noteq> deferred_call d" "CallFfprobe (ffprobe_args out) \<noteq> deferred_call d"
  by (cases d; simp)+

subsection \<open>Two concrete runs\<close>

lemmas demo_defs = demo_cfg_def demo_video_def demo_env_def demo_request_def demo_world_def

lemmas handler_defs = handlerUploadVideo_def handlerUploadVideo_validate_def
  handlerUploadVideo_stage_def handlerUploadVideo_process_def handlerUploadVideo_store_def

lemmas handler_rev1_defs = handlerUploadVideo_rev1_def handlerUploadVideo_rev1_validate_def
  handlerUploadVideo_rev1_stage_def handlerUploadVideo_rev1_store_def

lemmas step_defs = leave_def respondWithError_def respondWithJSON_def StatusOK_def
  StatusBadRequest_def StatusUnauthorized_def StatusInternalServerError_def GetVideo_def
  UpdateVideo_def maxUploadSize_def ParseMultipartForm_def FormFile_def
  processVideoForFastStart_def getVideoAspectRatio_def getVideoAspectRatio_rev1_def

lemma calls_demo_world: "calls demo_world = []"
  by (simp add: demo_world_def)

text \<open>The run in which every step succeeds, in full.\<close>

lemma demo_run:
  "handlerUploadVideo demo_cfg demo_env demo_request demo_world =
    (JSONResponse 200 (demo_video\<lparr>VideoURL := Some ''https://bucket1/landscape/abc.mp4?sig''\<rparr>),
     \<lparr>files = {},
      db = [UUID 1 \<mapsto> demo_video\<lparr>VideoURL := Some ''bucket1,landscape/abc.mp4''\<rparr>],
      calls = [CallCreateTemp ''/tmp/tubely-upload.mp442'',
               CallFfmpeg (ffmpeg_args ''/tmp/tubely-upload.mp442''
                 ''/tmp/tubely-upload.mp442.processing''),
               CallFfprobe (ffprobe_args ''/tmp/tubely-upload.mp442.processing''),
               CallOpen ''/tmp/tubely-upload.mp442.processing'',
               CallPutObject ''bucket1'' ''landscape/abc.mp4''
                 ''/tmp/tubely-upload.mp442.processing'' ''video/mp4'',
               CallUpdateVideo (demo_video\<lparr>VideoURL := Some ''bucket1,landscape/abc.mp4''\<rparr>),
               CallClose (OsFile ''/tmp/tubely-upload.mp442.processing''),
               CallRemove ''/tmp/tubely-upload.mp442.processing'',
               CallClose (OsFile ''/tmp/tubely-upload.mp442''),
               CallRemove ''/tmp/tubely-upload.mp442'',
               CallClose FormFile_video]\<rparr>)"
  by (simp add: handler_defs demo_defs step_defs Let_def aspect_of_output_def classify_examples
      insert_Diff_if directory_for_def encode_reference_def dbVideoToSignedVideo_def
      decode_reference_def generatePresignedURL_def Minute_def)

text \<open>The same run of the earlier revision: it probes and uploads the staged file.\<close>

lemma demo_run_rev1:
  "handlerUploadVideo_rev1 demo_cfg demo_env demo_request demo_world =
    (JSONResponse 200 (demo_video\<lparr>VideoURL := Some ''https://bucket1/landscape/abc.mp4''\<rparr>),
     \<lparr>files = {},
      db = [UUID 1 \<mapsto> demo_video\<lparr>VideoURL := Some ''https://bucket1/landscape/abc.mp4''\<rparr>],
      calls = [CallCreateTemp ''/tmp/tubely-upload.mp442'',
               CallFfprobe (ffprobe_args_rev1 ''/tmp/tubely-upload.mp442''),
               CallPutObject ''bucket1'' ''landscape/abc.mp4''
                 ''/tmp/tubely-upload.mp442'' ''video/mp4'',
               CallUpdateVideo
                 (demo_video\<lparr>VideoURL := Some ''https://bucket1/landscape/abc.mp4''\<rparr>),
               CallClose (OsFile ''/tmp/tubely-upload.mp442''),
               CallRemove ''/tmp/tubely-upload.mp442'',
               CallClose FormFile_video]\<rparr>)"
  by (simp add: handler_rev1_defs demo_defs step_defs Let_def aspect_of_output_def
      classify_examples insert_Diff_if directory_for_def)

subsection \<open>Cleanup of the temporary files\<close>

text \<open>
  Claim C1, at a run where the claim fails: the request is valid, the remux succeeds and
  writes its output file, and the probe of that file fails. The handler answers 500 and
  returns with the remux output still on disk: the only removal it has scheduled by then
  is that of the staged file, the removal of the remux output being deferred only after
  the remuxed file has been opened (line 192).
\<close>

theorem probe_failure_leaves_remux_output:
  "handlerUploadVideo demo_cfg demo_env_probe_fails demo_request demo_world =
    (ErrorResponse 500 ''Error determining aspect ratio'',
     \<lparr>files = {''/tmp/tubely-upload.mp442.processing''},
      db = [UUID 1 \<mapsto> demo_video],
      calls = [CallCreateTemp ''/tmp/tubely-upload.mp442'',
               CallFfmpeg (ffmpeg_args ''/tmp/tubely-upload.mp442''
                 ''/tmp/tubely-upload.mp442.processing''),
               CallFfprobe (ffprobe_args ''/tmp/tubely-upload.mp442.processing''),
               CallClose (OsFile ''/tmp/tubely-upload.mp442''),
               CallRemove ''/tmp/tubely-upload.mp442'',
               CallClose FormFile_video]\<rparr>)"
  by (simp add: handler_defs demo_env_probe_fails_def demo_defs step_defs Let_def
      aspect_of_output_def insert_Diff_if)

subsection \<open>Authorization\<close>

text \<open>
  Claim C6: when the owner of the target record is not the identity resolved from the
  bearer credential, the handler (either revision) answers 401 and leaves the state as it
  found it: it makes no call at all, so no object-store write and no metadata update.
\<close>

theorem not_owner_rejected:
  assumes "uuid_Parse env (PathValue_videoID r) = Some videoID"
      and "GetBearerToken env (Header r) = Some token"
      and "ValidateJWT env token (jwtSecret cfg) = Some userID"
      and "GetVideo w videoID = Some videoMetadata"
      and "UserID videoMetadata \<noteq> userID"
  shows "handlerUploadVideo cfg env r w = (ErrorResponse 401 ''Video is not yours!'', w) \<and>
         handlerUploadVideo_rev1 cfg env r w = (ErrorResponse 401 ''Video is not yours!'', w) \<and>
         calls_during w (snd (handlerUploadVideo cfg env r w)) = [] \<and>
         db (snd (handlerUploadVideo cfg env r w)) = db w"
  using assms
  by (simp add: handlerUploadVideo_def handlerUploadVideo_rev1_def leave_def
      respondWithError_def StatusUnauthorized_def calls_during_def)

theorem not_owner_rejected_witness:
  "uuid_Parse demo_env (PathValue_videoID demo_request_bob) = Some (UUID 1) \<and>
   GetBearerToken demo_env (Header demo_request_bob) = Some ''bob'' \<and>
   ValidateJWT demo_env ''bob'' (jwtSecret demo_cfg) = Some (UUID 8) \<and>
   GetVideo demo_world (UUID 1) = Some demo_video \<and>
   UserID demo_video \<noteq> UUID 8 \<and>
   handlerUploadVideo demo_cfg demo_env demo_request_bob demo_world =
     (ErrorResponse 401 ''Video is not yours!'', demo_world) \<and>
   handlerUploadVideo_rev1 demo_cfg demo_env demo_request_bob demo_world =
     (ErrorResponse 401 ''Video is not yours!'', demo_world)"
  using not_owner_rejected [of demo_env demo_request_bob "UUID 1" "''bob''" demo_cfg "UUID 8"
      demo_world demo_video]
  by (simp add: demo_request_bob_def demo_defs GetVideo_def)

subsection \<open>Media type\<close>

lemma validate_wrong_media_type:
  assumes "\<not> (\<exists>file. FormFile r ''video'' = Some file \<and>
                ParseMediaType env (content_type file) = Some ''video/mp4'')"
  shows "\<exists>msg pending.
           handlerUploadVideo_validate cfg env r vm w
             = leave pending (respondWithError StatusBadRequest msg) w \<and>
           handlerUploadVideo_rev1_validate cfg env r vm w
             = leave pending (respondWithError StatusBadRequest msg) w \<and>
           (pending = [] \<or> pending = [DeferClose FormFile_video])"
proof (cases "ParseMultipartForm r maxUploadSize")
  case False
  then show ?thesis
    unfolding handlerUploadVideo_validate_def handlerUploadVideo_rev1_validate_def
    by simp blast
next
  case True
  show ?thesis
  proof (cases "FormFile r ''video''")
    case None
    with True show ?thesis
      unfolding handlerUploadVideo_validate_def handlerUploadVideo_rev1_validate_def
      by simp blast
  next
    case (Some part)
    with assms have "ParseMediaType env (content_type part) \<noteq> Some ''video/mp4''" by simp
    with True Some show ?thesis
      unfolding handlerUploadVideo_validate_def handlerUploadVideo_rev1_validate_def
      by (cases "ParseMediaType env (content_type part)"; simp; blast)
  qed
qed

lemma handler_wrong_media_type:
  assumes "\<not> (\<exists>file. FormFile r ''video'' = Some file \<and>
                ParseMediaType env (content_type file) = Some ''video/mp4'')"
  shows "\<exists>code msg pending.
           handlerUploadVideo cfg env r w = leave pending (respondWithError code msg) w \<and>
           handlerUploadVideo_rev1 cfg env r w = leave pending (respondWithError code msg) w \<and>
           (pending = [] \<or> pending = [DeferClose FormFile_video]) \<and>
           ((\<exists>videoID token userID videoMetadata.
               uuid_Parse env (PathValue_videoID r) = Some videoID \<and>
               GetBearerToken env (Header r) = Some token \<and>
               ValidateJWT env token (jwtSecret cfg) = Some userID \<and>
               GetVideo w videoID = Some videoMetadata \<and>
               UserID videoMetadata = userID) \<longrightarrow> code = StatusBadRequest)"
  using validate_wrong_media_type [OF assms, of cfg _ w]
  by (auto simp: handlerUploadVideo_def handlerUploadVideo_rev1_def split: option.splits)

text \<open>
  Claim C8: a request that does not declare the media type \<^verbatim>\<open>video/mp4\<close> (its file part
  has another type, a type that does not parse, or is missing) gets an error response
  from either revision, and on that path no temporary file is created: the handler makes
  no call to \<^verbatim>\<open>os.CreateTemp\<close> and leaves the disk as it found it. When the request passes
  the checks that come first (identifier, credential, owner), the error is a 400;
  otherwise it is the error of the first of those checks that fails.
\<close>

theorem wrong_media_type_rejected:
  assumes "\<not> (\<exists>file. FormFile r ''video'' = Some file \<and>
                ParseMediaType env (content_type file) = Some ''video/mp4'')"
  shows "(\<exists>code msg. fst (handlerUploadVideo cfg env r w) = ErrorResponse code msg \<and>
            ((\<exists>videoID token userID videoMetadata.
               uuid_Parse env (PathValue_videoID r) = Some videoID \<and>
               GetBearerToken env (Header r) = Some token \<and>
               ValidateJWT env token (jwtSecret cfg) = Some userID \<and>
               GetVideo w videoID = Some videoMetadata \<and>
               UserID videoMetadata = userID) \<longrightarrow> code = 400)) \<and>
         (\<forall>t. CallCreateTemp t \<notin> set (calls_during w (snd (handlerUploadVideo cfg env r w)))) \<and>
         files (snd (handlerUploadVideo cfg env r w)) = files w \<and>
         handlerUploadVideo_rev1 cfg env r w = handlerUploadVideo cfg env r w"
proof -
  from handler_wrong_media_type [OF assms, of cfg w]
  obtain code msg pending where
    h: "handlerUploadVideo cfg env r w = leave pending (respondWithError code msg) w" and
    h1: "handlerUploadVideo_rev1 cfg env r w = leave pending (respondWithError code msg) w" and
    p: "pending = [] \<or> pending = [DeferClose FormFile_video]" and
    c: "(\<exists>videoID token userID videoMetadata.
               uuid_Parse env (PathValue_videoID r) = Some videoID \<and>
               GetBearerToken env (Header r) = Some token \<and>
               ValidateJWT env token (jwtSecret cfg) = Some userID \<and>
               GetVideo w videoID = Some videoMetadata \<and>
               UserID videoMetadata = userID) \<longrightarrow> code = StatusBadRequest"
    by blast
  have "fst (handlerUploadVideo cfg env r w) = ErrorResponse code msg"
    by (simp add: h leave_def respondWithError_def)
  moreover have "\<forall>t. CallCreateTemp t \<notin> set (calls_during w (snd (handlerUploadVideo cfg env r w)))"
    using p by (auto simp: h leave_def calls_during_def)
  moreover have "files (snd (handlerUploadVideo cfg env r w)) = files w"
    using p by (auto simp: h leave_def)
  moreover have "handlerUploadVideo_rev1 cfg env r w = handlerUploadVideo cfg env r w"
    by (simp add: h h1)
  ultimately show ?thesis using c by (auto simp: StatusBadRequest_def)
qed

theorem wrong_media_type_rejected_witness:
  "\<not> (\<exists>file. FormFile demo_request_png ''video'' = Some file \<and>
         ParseMediaType demo_env (content_type file) = Some ''video/mp4'') \<and>
   uuid_Parse demo_env (PathValue_videoID demo_request_png) = Some (UUID 1) \<and>
   GetBearerToken demo_env (Header demo_request_png) = Some ''alice'' \<and>
   ValidateJWT demo_env ''alice'' (jwtSecret demo_cfg) = Some (UUID 7) \<and>
   GetVideo demo_world (UUID 1) = Some demo_video \<and>
   UserID demo_video = UUID 7 \<and>
   (\<exists>msg. fst (handlerUploadVideo demo_cfg demo_env demo_request_png demo_world)
      = ErrorResponse 400 msg) \<and>
   (\<forall>t. CallCreateTemp t \<notin> set (calls_during demo_world
      (snd (handlerUploadVideo demo_cfg demo_env demo_request_png demo_world)))) \<and>
   files (snd (handlerUploadVideo demo_cfg demo_env demo_request_png demo_world))
     = files demo_world"
proof -
  have wrong: "\<not> (\<exists>file. FormFile demo_request_png ''video'' = Some file \<and>
         ParseMediaType demo_env (content_type file) = Some ''video/mp4'')"
    by (simp add: demo_request_png_def demo_request_def demo_env_def FormFile_def)
  have passes:
    "uuid_Parse demo_env (PathValue_videoID demo_request_png) = Some (UUID 1)"
    "GetBearerToken demo_env (Header demo_request_png) = Some ''alice''"
    "ValidateJWT demo_env ''alice'' (jwtSecret demo_cfg) = Some (UUID 7)"
    "GetVideo demo_world (UUID 1) = Some demo_video"
    "UserID demo_video = UUID 7"
    by (simp_all add: demo_request_png_def demo_defs GetVideo_def)
  from wrong_media_type_rejected [OF wrong, of demo_cfg demo_world] wrong passes
  show ?thesis by blast
qed

subsection \<open>Remux before probe\<close>

lemma store_calls:
  "\<exists>cs. calls (snd (handlerUploadVideo_store cfg env vm mt pending pfp dir w)) = calls w @ cs \<and>
        (\<forall>outs. remux_then_probe outs cs) \<and>
        (\<forall>b k body m. CallPutObject b k body m \<in> set cs \<longrightarrow>
           k = path_Join env dir (getAssetPath env mt) \<and> body = pfp \<and> m = mt)"
  by (auto simp: handlerUploadVideo_store_def Let_def leave_def UpdateVideo_def calls_fold_deferred
      remux_then_probe_deferred_only PutObject_not_deferred
      split: prod.splits option.splits bool.splits)

lemma process_calls:
  "\<exists>cs. calls (snd (handlerUploadVideo_process cfg env vm mt pending t w)) = calls w @ cs \<and>
        remux_then_probe [] cs \<and> placed_from_remux env cs"
proof -
  let ?out = "t @ ''.processing''"
  let ?run = "ffmpeg env (ffmpeg_args t ?out)"
  let ?w1 = "w\<lparr>files := (if output_written ?run then insert ?out (files w) else files w),
               calls := calls w @ [CallFfmpeg (ffmpeg_args t ?out)]\<rparr>"
  have remux: "processVideoForFastStart env t w =
      (if \<not> exit_ok ?run then Inl ErrFfmpeg else Inr ?out, ?w1)"
    by (simp add: processVideoForFastStart_def Let_def)
  show ?thesis
  proof (cases "exit_ok ?run")
    case False
    then show ?thesis
      by (simp add: handlerUploadVideo_process_def remux leave_def calls_fold_deferred
          remux_then_probe_deferred_only placed_from_remux_def PutObject_not_deferred image_iff)
  next
    case ok: True
    show ?thesis
    proof (cases "aspect_of_output (ffprobe env (ffprobe_args ?out))")
      case (Inl e)
      with ok show ?thesis
        by (simp add: handlerUploadVideo_process_def remux getVideoAspectRatio_def leave_def
            calls_fold_deferred remux_then_probe_deferred_only placed_from_remux_def
            PutObject_not_deferred image_iff last_args)
    next
      case (Inr ar)
      show ?thesis
      proof (cases "os_Open env ?out")
        case False
        with ok Inr show ?thesis
          by (simp add: handlerUploadVideo_process_def remux getVideoAspectRatio_def leave_def
              calls_fold_deferred remux_then_probe_deferred_only placed_from_remux_def
              PutObject_not_deferred image_iff last_args Let_def)
      next
        case True
        let ?w3 = "?w1\<lparr>calls := calls w @ [CallFfmpeg (ffmpeg_args t ?out),
                      CallFfprobe (ffprobe_args ?out), CallOpen ?out]\<rparr>"
        let ?pending = "DeferClose (OsFile ?out) # DeferRemove ?out # pending"
        have eq: "handlerUploadVideo_process cfg env vm mt pending t w =
            handlerUploadVideo_store cfg env vm mt ?pending ?out (directory_for ar) ?w3"
          using ok Inr True
          by (simp add: handlerUploadVideo_process_def remux getVideoAspectRatio_def Let_def)
        obtain cs where cs:
          "calls (snd (handlerUploadVideo_store cfg env vm mt ?pending ?out (directory_for ar) ?w3))
             = calls ?w3 @ cs"
          "\<forall>outs. remux_then_probe outs cs"
          "\<forall>b k body m. CallPutObject b k body m \<in> set cs \<longrightarrow>
             k = path_Join env (directory_for ar) (getAssetPath env mt) \<and> body = ?out \<and> m = mt"
          using store_calls [of cfg env vm mt ?pending ?out "directory_for ar" ?w3] by blast
        let ?cs = "[CallFfmpeg (ffmpeg_args t ?out), CallFfprobe (ffprobe_args ?out), CallOpen ?out] @ cs"
        have "calls (snd (handlerUploadVideo_process cfg env vm mt pending t w)) = calls ?w3 @ cs"
          by (simp only: eq cs(1))
        then have "calls (snd (handlerUploadVideo_process cfg env vm mt pending t w)) = calls w @ ?cs"
          by simp
        moreover have "remux_then_probe [] ?cs"
          using cs(2) by (simp add: last_args)
        moreover have "placed_from_remux env ?cs"
          unfolding placed_from_remux_def
        proof (intro allI impI)
          fix b k body m
          assume "CallPutObject b k body m \<in> set ?cs"
          then have "CallPutObject b k body m \<in> set cs" by simp
          with cs(3) have k: "k = path_Join env (directory_for ar) (getAssetPath env mt)"
            and body: "body = ?out" and m: "m = mt" by blast+
          have "body = t @ ''.processing'' \<and>
              CallFfmpeg (ffmpeg_args t body) \<in> set ?cs \<and>
              exit_ok (ffmpeg env (ffmpeg_args t body)) \<and>
              CallFfprobe (ffprobe_args body) \<in> set ?cs \<and>
              aspect_of_output (ffprobe env (ffprobe_args body)) = Inr ar \<and>
              k = path_Join env (directory_for ar) (getAssetPath env m)"
            using k m ok Inr by (simp add: body)
          then show "\<exists>tempFile aspectRatio. body = tempFile @ ''.processing'' \<and>
              CallFfmpeg (ffmpeg_args tempFile body) \<in> set ?cs \<and>
              exit_ok (ffmpeg env (ffmpeg_args tempFile body)) \<and>
              CallFfprobe (ffprobe_args body) \<in> set ?cs \<and>
              aspect_of_output (ffprobe env (ffprobe_args body)) = Inr aspectRatio \<and>
              k = path_Join env (directory_for aspectRatio) (getAssetPath env m)"
            by blast
        qed
        ultimately show ?thesis by blast
      qed
    qed
  qed
qed

lemma placed_from_remux_CreateTemp:
  "placed_from_remux env cs \<Longrightarrow> placed_from_remux env (CallCreateTemp t # cs)"
  by (auto simp: placed_from_remux_def)

lemma placed_from_remux_deferred: "placed_from_remux env (map deferred_call pending)"
  by (auto simp: placed_from_remux_def PutObject_not_deferred)

lemma placed_from_remux_CreateTemp_deferred:
  "placed_from_remux env (CallCreateTemp t # map deferred_call pending)"
  by (rule placed_from_remux_CreateTemp) (rule placed_from_remux_deferred)

lemma stage_calls:
  "\<exists>cs. calls (snd (handlerUploadVideo_stage cfg env vm mt pending w)) = calls w @ cs \<and>
        remux_then_probe [] cs \<and> placed_from_remux env cs"
proof (cases "os_CreateTemp env [] ''tubely-upload.mp4''")
  case None
  then show ?thesis
    by (simp add: handlerUploadVideo_stage_def leave_def calls_fold_deferred
        remux_then_probe_deferred_only placed_from_remux_deferred)
next
  case (Some t)
  let ?w1 = "w\<lparr>files := insert t (files w), calls := calls w @ [CallCreateTemp t]\<rparr>"
  let ?pending = "DeferClose (OsFile t) # DeferRemove t # pending"
  show ?thesis
  proof (cases "io_Copy_ok env \<and> Seek_ok env")
    case False
    have "placed_from_remux env (CallCreateTemp t # map deferred_call ?pending)"
      by (rule placed_from_remux_CreateTemp_deferred)
    with Some False show ?thesis
      by (auto simp: handlerUploadVideo_stage_def Let_def leave_def calls_fold_deferred
          remux_then_probe_deferred_only)
  next
    case True
    with Some have eq: "handlerUploadVideo_stage cfg env vm mt pending w =
        handlerUploadVideo_process cfg env vm mt ?pending t ?w1"
      by (simp add: handlerUploadVideo_stage_def Let_def)
    obtain cs where cs:
      "calls (snd (handlerUploadVideo_process cfg env vm mt ?pending t ?w1)) = calls ?w1 @ cs"
      "remux_then_probe [] cs" "placed_from_remux env cs"
      using process_calls [of cfg env vm mt ?pending t ?w1] by blast
    have "calls (snd (handlerUploadVideo_stage cfg env vm mt pending w)) = calls ?w1 @ cs"
      by (simp only: eq cs(1))
    then have "calls (snd (handlerUploadVideo_stage cfg env vm mt pending w)) = calls w @ CallCreateTemp t # cs"
      by simp
    moreover have "remux_then_probe [] (CallCreateTemp t # cs)"
      using cs(2) by simp
    moreover have "placed_from_remux env (CallCreateTemp t # cs)"
      using cs(3) by (rule placed_from_remux_CreateTemp)
    ultimately show ?thesis by blast
  qed
qed

lemma placed_from_remux_Nil: "placed_from_remux env []"
  by (simp add: placed_from_remux_def)

lemma leave_quiet:
  "\<exists>cs. calls (snd (leave pending resp w)) = calls w @ cs \<and>
        remux_then_probe [] cs \<and> placed_from_remux env cs"
  by (simp add: leave_def calls_fold_deferred remux_then_probe_deferred_only
      placed_from_remux_deferred)

lemma validate_calls:
  "\<exists>cs. calls (snd (handlerUploadVideo_validate cfg env r vm w)) = calls w @ cs \<and>
        remux_then_probe [] cs \<and> placed_from_remux env cs"
  unfolding handlerUploadVideo_validate_def
  by (simp add: leave_quiet stage_calls split: option.split)

lemma handler_calls:
  "\<exists>cs. calls (snd (handlerUploadVideo cfg env r w)) = calls w @ cs \<and>
        remux_then_probe [] cs \<and> placed_from_remux env cs"
  unfolding handlerUploadVideo_def
  by (simp add: leave_quiet validate_calls split: option.split)

text \<open>
  Claim C5: in every run of the handler of part_000, each probe reads the output file of
  a remux made earlier in the run, and each object-store write uploads that output file
  under a key whose directory is the classification of the probe of that output file.
\<close>

theorem remux_before_probe:
  "remux_then_probe [] (calls_during w (snd (handlerUploadVideo cfg env r w))) \<and>
   (\<forall>bucket key body mediaType.
      CallPutObject bucket key body mediaType
        \<in> set (calls_during w (snd (handlerUploadVideo cfg env r w))) \<longrightarrow>
      (\<exists>tempFile aspectRatio.
         body = tempFile @ ''.processing'' \<and>
         CallFfmpeg (ffmpeg_args tempFile body)
           \<in> set (calls_during w (snd (handlerUploadVideo cfg env r w))) \<and>
         exit_ok (ffmpeg env (ffmpeg_args tempFile body)) \<and>
         CallFfprobe (ffprobe_args body)
           \<in> set (calls_during w (snd (handlerUploadVideo cfg env r w))) \<and>
         aspect_of_output (ffprobe env (ffprobe_args body)) = Inr aspectRatio \<and>
         key = path_Join env (directory_for aspectRatio) (getAssetPath env mediaType)))"
proof -
  obtain cs where cs: "calls (snd (handlerUploadVideo cfg env r w)) = calls w @ cs"
    "remux_then_probe [] cs" "placed_from_remux env cs"
    using handler_calls [of cfg env r w] by blast
  have "calls_during w (snd (handlerUploadVideo cfg env r w)) = cs"
    by (simp add: calls_during_def cs(1))
  with cs(2,3) show ?thesis
    unfolding placed_from_remux_def by simp
qed

theorem remux_before_probe_witness:
  "CallPutObject ''bucket1'' ''landscape/abc.mp4'' ''/tmp/tubely-upload.mp442.processing''
     ''video/mp4''
     \<in> set (calls_during demo_world
           (snd (handlerUploadVideo demo_cfg demo_env demo_request demo_world))) \<and>
   (\<exists>tempFile aspectRatio.
      ''/tmp/tubely-upload.mp442.processing'' = tempFile @ ''.processing'' \<and>
      CallFfmpeg (ffmpeg_args tempFile ''/tmp/tubely-upload.mp442.processing'')
        \<in> set (calls_during demo_world
              (snd (handlerUploadVideo demo_cfg demo_env demo_request demo_world))) \<and>
      exit_ok (ffmpeg demo_env (ffmpeg_args tempFile ''/tmp/tubely-upload.mp442.processing'')) \<and>
      CallFfprobe (ffprobe_args ''/tmp/tubely-upload.mp442.processing'')
        \<in> set (calls_during demo_world
              (snd (handlerUploadVideo demo_cfg demo_env demo_request demo_world))) \<and>
      aspect_of_output (ffprobe demo_env (ffprobe_args ''/tmp/tubely-upload.mp442.processing''))
        = Inr aspectRatio \<and>
      ''landscape/abc.mp4'' =
        path_Join demo_env (directory_for aspectRatio) (getAssetPath demo_env ''video/mp4''))"
proof -
  have "CallPutObject ''bucket1'' ''landscape/abc.mp4'' ''/tmp/tubely-upload.mp442.processing''
     ''video/mp4''
     \<in> set (calls_during demo_world
           (snd (handlerUploadVideo demo_cfg demo_env demo_request demo_world)))"
    by (simp add: demo_run calls_during_def calls_demo_world)
  with remux_before_probe [of demo_world demo_cfg demo_env demo_request]
  show ?thesis by blast
qed

subsection \<open>The persisted reference and the response\<close>

lemma store_success:
  assumes "fst (handlerUploadVideo_store cfg env vm mt pending pfp dir w) = JSONResponse code payload"
  shows "\<exists>key. code = 200 \<and>
           db (snd (handlerUploadVideo_store cfg env vm mt pending pfp dir w)) =
             (db w)(ID vm \<mapsto> vm\<lparr>VideoURL := Some (encode_reference (s3Bucket cfg) key)\<rparr>) \<and>
           dbVideoToSignedVideo env (vm\<lparr>VideoURL := Some (encode_reference (s3Bucket cfg) key)\<rparr>)
             = (payload, None)"
  using assms
  by (auto simp: handlerUploadVideo_store_def Let_def leave_def UpdateVideo_def db_fold_deferred
      respondWithError_def respondWithJSON_def StatusOK_def
      split: prod.splits option.splits bool.splits if_splits)

lemma process_success:
  assumes "fst (handlerUploadVideo_process cfg env vm mt pending t w) = JSONResponse code payload"
  shows "\<exists>key. code = 200 \<and>
           db (snd (handlerUploadVideo_process cfg env vm mt pending t w)) =
             (db w)(ID vm \<mapsto> vm\<lparr>VideoURL := Some (encode_reference (s3Bucket cfg) key)\<rparr>) \<and>
           dbVideoToSignedVideo env (vm\<lparr>VideoURL := Some (encode_reference (s3Bucket cfg) key)\<rparr>)
             = (payload, None)"
  using assms
  by (auto simp: handlerUploadVideo_process_def processVideoForFastStart_def getVideoAspectRatio_def
      Let_def leave_not_JSON
      split: prod.splits sum.splits if_splits dest!: store_success)

lemma stage_success:
  assumes "fst (handlerUploadVideo_stage cfg env vm mt pending w) = JSONResponse code payload"
  shows "\<exists>key. code = 200 \<and>
           db (snd (handlerUploadVideo_stage cfg env vm mt pending w)) =
             (db w)(ID vm \<mapsto> vm\<lparr>VideoURL := Some (encode_reference (s3Bucket cfg) key)\<rparr>) \<and>
           dbVideoToSignedVideo env (vm\<lparr>VideoURL := Some (encode_reference (s3Bucket cfg) key)\<rparr>)
             = (payload, None)"
  using assms
  by (auto simp: handlerUploadVideo_stage_def Let_def leave_not_JSON
      split: option.splits if_splits dest!: process_success)

lemma validate_success:
  assumes "fst (handlerUploadVideo_validate cfg env r vm w) = JSONResponse code payload"
  shows "\<exists>key. code = 200 \<and>
           db (snd (handlerUploadVideo_validate cfg env r vm w)) =
             (db w)(ID vm \<mapsto> vm\<lparr>VideoURL := Some (encode_reference (s3Bucket cfg) key)\<rparr>) \<and>
           dbVideoToSignedVideo env (vm\<lparr>VideoURL := Some (encode_reference (s3Bucket cfg) key)\<rparr>)
             = (payload, None)"
  using assms
  by (auto simp: handlerUploadVideo_validate_def leave_not_JSON
      split: option.splits if_splits dest!: stage_success)

text \<open>
  Claim C9: when the handler answers with the record (a successful upload), the metadata
  store holds, for that record, the encoded pair of bucket and key as stored reference;
  the payload of the response is the same record with the signed URL, obtained from the
  decoded pair, in that field; the store is not touched by the signing.
\<close>

theorem persisted_reference_encoded:
  assumes "handlerUploadVideo cfg env r w = (JSONResponse code payload, w')"
  shows "\<exists>videoID videoMetadata key bucket' key' url.
           uuid_Parse env (PathValue_videoID r) = Some videoID \<and>
           GetVideo w videoID = Some videoMetadata \<and>
           db w' = (db w)(ID videoMetadata \<mapsto>
                     videoMetadata\<lparr>VideoURL := Some (encode_reference (s3Bucket cfg) key)\<rparr>) \<and>
           decode_reference (encode_reference (s3Bucket cfg) key) = Inr (bucket', key') \<and>
           PresignGetObject env bucket' key' (Minute * 5) = Some url \<and>
           payload = videoMetadata\<lparr>VideoURL := Some url\<rparr> \<and>
           code = 200"
proof -
  from assms have f: "fst (handlerUploadVideo cfg env r w) = JSONResponse code payload"
    and s: "snd (handlerUploadVideo cfg env r w) = w'" by simp_all
  from f obtain videoID vm where
    id: "uuid_Parse env (PathValue_videoID r) = Some videoID" and
    vm: "GetVideo w videoID = Some vm" and
    eq: "handlerUploadVideo cfg env r w = handlerUploadVideo_validate cfg env r vm w"
    by (auto simp: handlerUploadVideo_def leave_not_JSON split: option.splits if_splits)
  from f eq have "fst (handlerUploadVideo_validate cfg env r vm w) = JSONResponse code payload"
    by simp
  from validate_success [OF this] obtain key where
    code: "code = 200" and
    db: "db (snd (handlerUploadVideo_validate cfg env r vm w)) =
         (db w)(ID vm \<mapsto> vm\<lparr>VideoURL := Some (encode_reference (s3Bucket cfg) key)\<rparr>)" and
    sg: "dbVideoToSignedVideo env (vm\<lparr>VideoURL := Some (encode_reference (s3Bucket cfg) key)\<rparr>)
         = (payload, None)"
    by blast
  from signed_video [OF sg] obtain bucket' key' url where
    "decode_reference (encode_reference (s3Bucket cfg) key) = Inr (bucket', key')"
    "PresignGetObject env bucket' key' (Minute * 5) = Some url"
    "payload = vm\<lparr>VideoURL := Some url\<rparr>"
    by auto
  moreover from db eq s have "db w' =
      (db w)(ID vm \<mapsto> vm\<lparr>VideoURL := Some (encode_reference (s3Bucket cfg) key)\<rparr>)"
    by simp
  ultimately show ?thesis using id vm code by blast
qed

theorem persisted_reference_encoded_witness:
  "handlerUploadVideo demo_cfg demo_env demo_request demo_world =
     (JSONResponse 200 (demo_video\<lparr>VideoURL := Some ''https://bucket1/landscape/abc.mp4?sig''\<rparr>),
      \<lparr>files = {},
       db = [UUID 1 \<mapsto> demo_video\<lparr>VideoURL := Some ''bucket1,landscape/abc.mp4''\<rparr>],
       calls = [CallCreateTemp ''/tmp/tubely-upload.mp442'',
               CallFfmpeg (ffmpeg_args ''/tmp/tubely-upload.mp442''
                 ''/tmp/tubely-upload.mp442.processing''),
               CallFfprobe (ffprobe_args ''/tmp/tubely-upload.mp442.processing''),
               CallOpen ''/tmp/tubely-upload.mp442.processing'',
               CallPutObject ''bucket1'' ''landscape/abc.mp4''
                 ''/tmp/tubely-upload.mp442.processing'' ''video/mp4'',
               CallUpdateVideo (demo_video\<lparr>VideoURL := Some ''bucket1,landscape/abc.mp4''\<rparr>),
               CallClose (OsFile ''/tmp/tubely-upload.mp442.processing''),
               CallRemove ''/tmp/tubely-upload.mp442.processing'',
               CallClose (OsFile ''/tmp/tubely-upload.mp442''),
               CallRemove ''/tmp/tubely-upload.mp442'',
               CallClose FormFile_video]\<rparr>) \<and>
   (\<exists>videoID videoMetadata key bucket' key' url.
      uuid_Parse demo_env (PathValue_videoID demo_request) = Some videoID \<and>
      GetVideo demo_world videoID = Some videoMetadata \<and>
      [UUID 1 \<mapsto> demo_video\<lparr>VideoURL := Some ''bucket1,landscape/abc.mp4''\<rparr>] =
        (db demo_world)(ID videoMetadata \<mapsto>
           videoMetadata\<lparr>VideoURL := Some (encode_reference (s3Bucket demo_cfg) key)\<rparr>) \<and>
      decode_reference (encode_reference (s3Bucket demo_cfg) key) = Inr (bucket', key') \<and>
      PresignGetObject demo_env bucket' key' (Minute * 5) = Some url \<and>
      demo_video\<lparr>VideoURL := Some ''https://bucket1/landscape/abc.mp4?sig''\<rparr> =
        videoMetadata\<lparr>VideoURL := Some url\<rparr>)"
  using persisted_reference_encoded [OF demo_run] demo_run by simp

end
